theory Spec2Isabelle
  imports Complex_Main
begin

section \<open>Python values and exceptions\<close>

text \<open>
  The module \<^verbatim>\<open>motor_dashboard_plots.py\<close> is embedded method by method. A number
  (\<^verbatim>\<open>_t\<close>, \<^verbatim>\<open>tau\<close>, \<^verbatim>\<open>x_width\<close>, a reward, a buffer entry) is the rational value of
  the Python number; every floating-point operation of the module is the exact operation
  followed by the rounding \<open>fl\<close> of binary64 arithmetic, defined below.
\<close>

datatype error =
    AssertionError | AttributeError | TypeError | ValueError
  | IndexError | ZeroDivisionError | NotImplementedError

text \<open>
  A method call either returns, leaving the object in the given state, or raises an
  exception, leaving the object as it was when the exception was raised (the statements
  executed before the raise have taken effect).
\<close>

datatype 'a result = Ok 'a | Raise error 'a

fun after :: "'a result \<Rightarrow> 'a" where
  "after (Ok s) = s"
| "after (Raise e s) = s"

fun raised :: "'a result \<Rightarrow> error option" where
  "raised (Ok s) = None"
| "raised (Raise e s) = Some e"

text \<open>An attribute that no statement has assigned yet is \<open>Absent\<close>: reading it raises AttributeError.\<close>

datatype 'a attr = Absent | Present 'a

text \<open>The argument values a configuration parameter can receive; dictionaries are keyed by strings.\<close>

datatype pyval =
    PyNone
  | PyBool bool
  | PyInt int
  | PyFloat rat
  | PyStr string
  | PyList "pyval list"
  | PyDict "(string \<times> pyval) list"

fun truthy :: "pyval \<Rightarrow> bool" where
  "truthy PyNone = False"
| "truthy (PyBool b) = b"
| "truthy (PyInt i) = (i \<noteq> 0)"
| "truthy (PyFloat x) = (x \<noteq> 0)"
| "truthy (PyStr s) = (s \<noteq> [])"
| "truthy (PyList xs) = (xs \<noteq> [])"
| "truthy (PyDict d) = (d \<noteq> [])"

text \<open>\<^verbatim>\<open>v or {}\<close>\<close>

definition or_empty_dict :: "pyval \<Rightarrow> pyval" where
  "or_empty_dict v = (if truthy v then v else PyDict [])"

text \<open>\<^verbatim>\<open>type(v) is dict\<close>\<close>

fun type_is_dict :: "pyval \<Rightarrow> bool" where
  "type_is_dict (PyDict d) = True"
| "type_is_dict v = False"

fun dict_set :: "string \<Rightarrow> pyval \<Rightarrow> (string \<times> pyval) list \<Rightarrow> (string \<times> pyval) list" where
  "dict_set k v [] = [(k, v)]"
| "dict_set k v ((k', v') # d) = (if k = k' then (k, v) # d else (k', v') # dict_set k v d)"

text \<open>
  \<^verbatim>\<open>d.update(e)\<close> changes \<open>d\<close> in place and returns None: the first component is the
  dictionary afterwards, the second the value of the call expression.
\<close>

definition dict_update ::
  "(string \<times> pyval) list \<Rightarrow> (string \<times> pyval) list \<Rightarrow> (string \<times> pyval) list \<times> pyval" where
  "dict_update d e = (fold (\<lambda>(k, v). dict_set k v) e d, PyNone)"

text \<open>\<^verbatim>\<open>f(**v)\<close>: unpacking anything but a mapping raises TypeError.\<close>

fun unpack_kwargs :: "pyval \<Rightarrow> (string \<times> pyval) list option" where
  "unpack_kwargs (PyDict d) = Some d"
| "unpack_kwargs v = None"

subsection \<open>Arithmetic\<close>

text \<open>
  Binary64 rounding: a nonzero rational is scaled so that its magnitude lies in
  \<open>[2^52, 2^53)\<close> (or is taken in units of \<open>2^-1074\<close> when it is smaller than the least
  normal number), rounded to the nearest integer, ties to the even one, and scaled back.
  Magnitudes beyond the largest double (where Python gives \<^verbatim>\<open>inf\<close>) are outside the model.
  An operand that is a Python int is taken as the double of the same value.
\<close>

fun bits :: "nat \<Rightarrow> nat" where
  "bits n = (if n = 0 then 0 else Suc (bits (n div 2)))"

definition pow2 :: "int \<Rightarrow> rat" where
  "pow2 k = (if 0 \<le> k then 2 ^ nat k else 1 / 2 ^ nat (- k))"

text \<open>The integer part of the binary logarithm of a positive rational.\<close>

definition ilog2 :: "rat \<Rightarrow> int" where
  "ilog2 x =
     (let (a, b) = quotient_of x;
          k = int (bits (nat a)) - int (bits (nat b))
      in if pow2 k \<le> x then k else k - 1)"

definition round_half_even :: "rat \<Rightarrow> int" where
  "round_half_even q =
     (let f = \<lfloor>q\<rfloor>; d = q - of_int f in
      if d < 1 / 2 then f
      else if 1 / 2 < d then f + 1
      else if even f then f else f + 1)"

definition fl :: "rat \<Rightarrow> rat" where
  "fl x =
     (if x = 0 then 0
      else
        (let e = max (ilog2 \<bar>x\<bar> - 52) (- 1074);
             m = round_half_even (\<bar>x\<bar> / pow2 e)
         in (if x < 0 then - 1 else 1) * of_int m * pow2 e))"

text \<open>\<^verbatim>\<open>int(x)\<close> truncates towards zero.\<close>

definition py_int :: "rat \<Rightarrow> int" where
  "py_int x = (if 0 \<le> x then \<lfloor>x\<rfloor> else \<lceil>x\<rceil>)"

text \<open>
  \<^verbatim>\<open>a % b\<close> on floats: \<open>b = 0\<close> raises ZeroDivisionError; otherwise the exact remainder
  of the truncated division (C's \<^verbatim>\<open>fmod\<close>), to which \<open>b\<close> is added, in floating point,
  when it is not zero and its sign differs from the sign of \<open>b\<close>.
\<close>

definition py_mod :: "rat \<Rightarrow> rat \<Rightarrow> rat option" where
  "py_mod a b =
     (if b = 0 then None
      else
        (let r = a - b * of_int (py_int (a / b)) in
         Some (if r \<noteq> 0 \<and> ((b < 0) \<noteq> (r < 0)) then fl (r + b) else r)))"

text \<open>\<^verbatim>\<open>a / b\<close> on floats\<close>

definition py_truediv :: "rat \<Rightarrow> rat \<Rightarrow> rat option" where
  "py_truediv a b = (if b = 0 then None else Some (fl (a / b)))"

subsection \<open>Sequences\<close>

text \<open>
  \<^verbatim>\<open>xs[i] = v\<close> and \<^verbatim>\<open>xs[i]\<close> on a list or a one-dimensional array: an index in
  \<open>[-len, len)\<close> addresses an entry (negative indices count from the end), any other
  index raises IndexError.
\<close>

definition py_pos :: "'a list \<Rightarrow> int \<Rightarrow> nat option" where
  "py_pos xs i =
     (let n = int (length xs) in
      if 0 \<le> i \<and> i < n then Some (nat i)
      else if - n \<le> i \<and> i < 0 then Some (nat (n + i))
      else None)"

definition py_setitem :: "'a list \<Rightarrow> int \<Rightarrow> 'a \<Rightarrow> 'a list option" where
  "py_setitem xs i v = (case py_pos xs i of None \<Rightarrow> None | Some j \<Rightarrow> Some (xs[j := v]))"

definition py_getitem :: "'a list \<Rightarrow> int \<Rightarrow> 'a option" where
  "py_getitem xs i = (case py_pos xs i of None \<Rightarrow> None | Some j \<Rightarrow> Some (xs ! j))"

text \<open>
  \<^verbatim>\<open>np.linspace(0, stop, num, endpoint=False)\<close>: entry \<open>i\<close> is \<open>i * step\<close> with
  \<open>step = stop / num\<close>, both in floating point; a negative \<open>num\<close> raises ValueError.
\<close>

definition linspace0 :: "rat \<Rightarrow> int \<Rightarrow> rat list option" where
  "linspace0 stop num =
     (if num < 0 then None
      else Some (map (\<lambda>i. fl (of_nat i * fl (stop / of_int num))) [0..<nat num]))"

text \<open>\<^verbatim>\<open>[0.0] * n\<close> and \<^verbatim>\<open>np.zeros(n)\<close> for \<open>n \<ge> 0\<close>.\<close>

definition zeros :: "int \<Rightarrow> rat list" where
  "zeros n = replicate (nat n) 0"

text \<open>
  \<^verbatim>\<open>collections.deque(items, maxlen)\<close>: appending to a full deque drops the leftmost
  entry.
\<close>

record 'a deque =
  items :: "'a list"
  maxlen :: nat

definition deque_append :: "'a deque \<Rightarrow> 'a \<Rightarrow> 'a deque" where
  "deque_append d v =
     (let xs = items d @ [v] in
      d\<lparr>items := (if maxlen d < length xs then tl xs else xs)\<rparr>)"

text \<open>
  The index every \<^verbatim>\<open>step\<close> method computes:
  \<^verbatim>\<open>idx = int((self._t % self.x_width) / self._tau)\<close>.
\<close>

definition step_idx :: "rat \<Rightarrow> rat \<Rightarrow> rat \<Rightarrow> int option" where
  "step_idx t x_width tau =
     (case py_mod t x_width of
        None \<Rightarrow> None
      | Some m \<Rightarrow> (case py_truediv m tau of None \<Rightarrow> None | Some q \<Rightarrow> Some (py_int q)))"


section \<open>The plotting library\<close>

text \<open>
  The module drives a third-party figure axis. The axis is a record of the properties the
  module sets; \<^verbatim>\<open>set_xlim\<close> stores its arguments and \<^verbatim>\<open>get_xlim\<close> reads them back.
  Limits of the y-axis are computed from values that may be infinite (the default
  \<^verbatim>\<open>y_lim\<close> is \<^verbatim>\<open>(-np.inf, np.inf)\<close>), and the library refuses limits that are not
  finite.
\<close>

datatype pyfloat = Fin rat | PInf | NInf | NaN

fun f_neg :: "pyfloat \<Rightarrow> pyfloat" where
  "f_neg (Fin a) = Fin (- a)"
| "f_neg PInf = NInf"
| "f_neg NInf = PInf"
| "f_neg NaN = NaN"

fun f_add :: "pyfloat \<Rightarrow> pyfloat \<Rightarrow> pyfloat" where
  "f_add (Fin a) (Fin b) = Fin (fl (a + b))"
| "f_add NaN y = NaN"
| "f_add x NaN = NaN"
| "f_add PInf NInf = NaN"
| "f_add NInf PInf = NaN"
| "f_add PInf y = PInf"
| "f_add NInf y = NInf"
| "f_add x PInf = PInf"
| "f_add x NInf = NInf"

definition f_sub :: "pyfloat \<Rightarrow> pyfloat \<Rightarrow> pyfloat" where
  "f_sub a b = f_add a (f_neg b)"

text \<open>\<^verbatim>\<open>0.1 * v\<close>\<close>

fun tenth :: "pyfloat \<Rightarrow> pyfloat" where
  "tenth (Fin a) = Fin (fl (fl (1 / 10) * a))"
| "tenth v = v"

record line2d =
  xdata :: "rat list"
  ydata :: "rat list"

record axes =
  ax_grid :: bool
  ax_autoscale :: bool
  ax_xlim :: "rat \<times> rat"
  ax_ylim :: "rat \<times> rat"
  ax_ylabel :: string
  ax_hlines :: "rat list"
  ax_vlines :: "rat list"
  ax_nlines :: nat
  ax_legend :: "string list"

definition grid :: "axes \<Rightarrow> axes" where
  "grid ax = ax\<lparr>ax_grid := True\<rparr>"

definition autoscale :: "axes \<Rightarrow> axes" where
  "autoscale ax = ax\<lparr>ax_autoscale := True\<rparr>"

definition get_xlim :: "axes \<Rightarrow> rat \<times> rat" where
  "get_xlim ax = ax_xlim ax"

definition set_xlim :: "rat \<Rightarrow> rat \<Rightarrow> axes \<Rightarrow> axes" where
  "set_xlim lo hi ax = ax\<lparr>ax_xlim := (lo, hi)\<rparr>"

text \<open>\<^verbatim>\<open>set_ylim\<close> raises ValueError for a limit that is infinite or not a number.\<close>

fun set_ylim :: "pyfloat \<Rightarrow> pyfloat \<Rightarrow> axes \<Rightarrow> axes option" where
  "set_ylim (Fin lo) (Fin hi) ax = Some (ax\<lparr>ax_ylim := (lo, hi)\<rparr>)"
| "set_ylim lo hi ax = None"

definition set_ylabel :: "string \<Rightarrow> axes \<Rightarrow> axes" where
  "set_ylabel l ax = ax\<lparr>ax_ylabel := l\<rparr>"

definition axhline :: "rat \<Rightarrow> axes \<Rightarrow> axes" where
  "axhline y ax = ax\<lparr>ax_hlines := ax_hlines ax @ [y]\<rparr>"

definition axvline :: "rat \<Rightarrow> axes \<Rightarrow> axes" where
  "axvline v ax = ax\<lparr>ax_vlines := ax_vlines ax @ [v]\<rparr>"

definition legend :: "string list \<Rightarrow> axes \<Rightarrow> axes" where
  "legend labels ax = ax\<lparr>ax_legend := labels\<rparr>"

text \<open>
  \<^verbatim>\<open>axis.plot(xs, ys, **cfg)\<close>: unpacking a \<open>cfg\<close> that is no mapping raises TypeError
  before the call; the call raises ValueError when the two sequences differ in length, and
  otherwise returns the new line.
\<close>

definition plot :: "axes \<Rightarrow> rat list \<Rightarrow> rat list \<Rightarrow> pyval \<Rightarrow> error + (axes \<times> line2d)" where
  "plot ax xs ys cfg =
     (case unpack_kwargs cfg of
        None \<Rightarrow> Inl TypeError
      | Some kw \<Rightarrow>
          if length xs \<noteq> length ys then Inl ValueError
          else Inr (ax\<lparr>ax_nlines := Suc (ax_nlines ax)\<rparr>, \<lparr>xdata = xs, ydata = ys\<rparr>))"

definition set_data :: "rat list \<Rightarrow> rat list \<Rightarrow> line2d \<Rightarrow> line2d" where
  "set_data xs ys l = l\<lparr>xdata := xs, ydata := ys\<rparr>"

text \<open>The environment handed to \<^verbatim>\<open>set_env\<close>: only \<^verbatim>\<open>env.physical_system.tau\<close> is read (field \<open>ps_tau\<close>).\<close>

record physical_system =
  ps_tau :: rat

record env =
  physical_system :: physical_system

text \<open>Sequencing of two parts of a method body: an exception ends the method.\<close>

definition and_then :: "'a result \<Rightarrow> ('a \<Rightarrow> 'a result) \<Rightarrow> 'a result" where
  "and_then r f = (case r of Ok s \<Rightarrow> f s | Raise e s \<Rightarrow> Raise e s)"

section \<open>MotorDashboardPlot\<close>

text \<open>
  A field \<open>u_name\<close> is the attribute \<^verbatim>\<open>_name\<close>. An \<open>option\<close> field holds Python's None
  as \<open>None\<close>.
\<close>

record motor_dashboard_plot =
  u_axis :: "axes option"
  u_line_cfg :: pyval

text \<open>The class attribute \<^verbatim>\<open>_default_line_cfg\<close>, shared by all instances, as the module defines it.\<close>

definition default_line_cfg :: "(string \<times> pyval) list" where
  "default_line_cfg =
     [(''linestyle'', PyStr ''''), (''linewidth'', PyFloat (3 / 4)),
      (''marker'', PyStr ''.''), (''markersize'', PyFloat (1 / 2))]"

fun dict_items :: "pyval \<Rightarrow> (string \<times> pyval) list" where
  "dict_items (PyDict d) = d"
| "dict_items v = []"

text \<open>
  \<^verbatim>\<open>__init__(self, line_config=None)\<close>. The constructor takes the current value of the
  class attribute \<^verbatim>\<open>_default_line_cfg\<close> and returns it, as changed by \<^verbatim>\<open>update\<close>, with
  the new object.
\<close>

definition MotorDashboardPlot_init ::
  "(string \<times> pyval) list \<Rightarrow> pyval \<Rightarrow> error + ((string \<times> pyval) list \<times> motor_dashboard_plot)" where
  "MotorDashboardPlot_init cls line_config =
     (let line_config = or_empty_dict line_config in
      if \<not> type_is_dict line_config then Inl AssertionError
      else
        (let (cls', r) = dict_update cls (dict_items line_config) in
         Inr (cls', \<lparr>u_axis = None, u_line_cfg = r\<rparr>)))"

definition MotorDashboardPlot_initialize ::
  "'a motor_dashboard_plot_scheme \<Rightarrow> axes \<Rightarrow> 'a motor_dashboard_plot_scheme result" where
  "MotorDashboardPlot_initialize p axis = Ok (p\<lparr>u_axis := Some (grid axis)\<rparr>)"

text \<open>\<^verbatim>\<open>set_env\<close> and \<^verbatim>\<open>on_reset_begin\<close>: the body is \<^verbatim>\<open>pass\<close>.\<close>

definition MotorDashboardPlot_set_env ::
  "'a motor_dashboard_plot_scheme \<Rightarrow> env \<Rightarrow> 'a motor_dashboard_plot_scheme result" where
  "MotorDashboardPlot_set_env p e = Ok p"

definition MotorDashboardPlot_on_reset_begin ::
  "'a motor_dashboard_plot_scheme \<Rightarrow> 'a motor_dashboard_plot_scheme result" where
  "MotorDashboardPlot_on_reset_begin p = Ok p"

definition MotorDashboardPlot_on_step_begin ::
  "'a motor_dashboard_plot_scheme \<Rightarrow> int \<Rightarrow> 'act \<Rightarrow> 'a motor_dashboard_plot_scheme result" where
  "MotorDashboardPlot_on_step_begin p k action = Raise NotImplementedError p"

definition MotorDashboardPlot_on_reset_end ::
  "'a motor_dashboard_plot_scheme \<Rightarrow> int \<Rightarrow> 'st \<Rightarrow> 'st \<Rightarrow> 'a motor_dashboard_plot_scheme result" where
  "MotorDashboardPlot_on_reset_end p k state reference = Raise NotImplementedError p"

section \<open>StepPlot\<close>

record step_plot = motor_dashboard_plot +
  u_no_x_points :: "int option"
  u_t :: rat
  u_t_data :: "rat list"
  u_tau :: "rat option"
  x_width :: rat
  update_cycle :: int
  y_lim :: "(pyfloat \<times> pyfloat) option"

text \<open>\<^verbatim>\<open>__init__(self, x_width=1, update_cycle=1000, **kwargs)\<close>, the keyword arguments being \<^verbatim>\<open>line_config\<close>.\<close>

definition StepPlot_init ::
  "(string \<times> pyval) list \<Rightarrow> rat \<Rightarrow> int \<Rightarrow> pyval \<Rightarrow> error + ((string \<times> pyval) list \<times> step_plot)" where
  "StepPlot_init cls xw uc line_config =
     (case MotorDashboardPlot_init cls line_config of
        Inl e \<Rightarrow> Inl e
      | Inr (cls', b) \<Rightarrow>
          Inr (cls', motor_dashboard_plot.extend b
                 (step_plot.fields None 0 [] None xw uc (Some (NInf, PInf)))))"

definition StepPlot_on_reset_end ::
  "'a step_plot_scheme \<Rightarrow> int \<Rightarrow> 'st \<Rightarrow> 'st \<Rightarrow> 'a step_plot_scheme result" where
  "StepPlot_on_reset_end p k state reference = Ok p"

definition StepPlot_step ::
  "'a step_plot_scheme \<Rightarrow> int \<Rightarrow> 'st \<Rightarrow> 'st \<Rightarrow> 'act \<Rightarrow> rat \<Rightarrow> bool \<Rightarrow> 'a step_plot_scheme result" where
  "StepPlot_step p k state reference action reward done = Raise NotImplementedError p"

definition StepPlot_set_env :: "'a step_plot_scheme \<Rightarrow> env \<Rightarrow> 'a step_plot_scheme result" where
  "StepPlot_set_env p e =
     and_then (MotorDashboardPlot_set_env p e) (\<lambda>p.
       case u_axis p of
         None \<Rightarrow> Raise AttributeError p
       | Some ax \<Rightarrow>
           (let p = p\<lparr>u_axis := Some (set_xlim (- x_width p) 0 ax)\<rparr>;
                p = p\<lparr>u_tau := Some (ps_tau (physical_system e))\<rparr>
            in case py_truediv (x_width p) (ps_tau (physical_system e)) of
                 None \<Rightarrow> Raise ZeroDivisionError p
               | Some q \<Rightarrow> Ok (p\<lparr>u_no_x_points := Some (py_int q)\<rparr>)))"

definition StepPlot_update :: "'a step_plot_scheme \<Rightarrow> 'a step_plot_scheme result" where
  "StepPlot_update p =
     (case u_axis p of
        None \<Rightarrow> Raise AttributeError p
      | Some ax \<Rightarrow>
          (let x_lim = get_xlim ax;
               upper_lim = max (u_t p) (snd x_lim);
               lower_lim = fl (upper_lim - x_width p)
           in Ok (p\<lparr>u_axis := Some (set_xlim lower_lim upper_lim ax)\<rparr>)))"

definition StepPlot_initialize :: "'a step_plot_scheme \<Rightarrow> axes \<Rightarrow> 'a step_plot_scheme result" where
  "StepPlot_initialize p axis =
     and_then (MotorDashboardPlot_initialize p axis) (\<lambda>p.
       case u_axis p of
         None \<Rightarrow> Raise AttributeError p
       | Some ax \<Rightarrow>
           (case y_lim p of
              None \<Rightarrow> Ok (p\<lparr>u_axis := Some (autoscale ax)\<rparr>)
            | Some (min_limit, max_limit) \<Rightarrow>
                (let spacing = tenth (f_sub max_limit min_limit) in
                 case set_ylim (f_sub min_limit spacing) (f_add max_limit spacing) ax of
                   None \<Rightarrow> Raise ValueError p
                 | Some ax' \<Rightarrow> Ok (p\<lparr>u_axis := Some ax'\<rparr>))))"



section \<open>StatePlot\<close>

record state_plot = step_plot +
  u_state_space :: "(rat \<times> rat) option"
  u_state :: string
  u_state_idx :: "int option"
  u_limits :: "rat option"
  u_referenced :: "bool option"
  u_state_line :: "line2d option"
  u_reference_line :: "line2d option"
  u_state_data :: "rat list"
  u_ref_data :: "rat list"
  u_normalized :: bool

text \<open>The class attribute \<^verbatim>\<open>state_labels\<close>; \<open>CHR 0x5C\<close> is the backslash.\<close>

definition state_labels :: "(string \<times> string) list" where
  "state_labels =
     [(''omega'', ''$'' @ [CHR 0x5C] @ ''omega/(rad/s)$''),
      (''torque'', ''$T/Nm$''),
      (''i'', ''$i/A$''),
      (''i_a'', ''$i_{a}/A$''),
      (''i_e'', ''$i_{e}/A$''),
      (''i_b'', ''$i_{b}/A$''),
      (''i_c'', ''$i_{c}/A$''),
      (''i_sq'', ''$i_{sq}/A$''),
      (''i_sd'', ''$i_{sd}/A$''),
      (''u'', ''$u/V$''),
      (''u_a'', ''$u_{a}/V$''),
      (''u_b'', ''$u_{b}/V$''),
      (''u_c'', ''$u_{c}/V$''),
      (''u_sq'', ''$u_{sq}/V$''),
      (''u_sd'', ''$u_{sd}/V$''),
      (''u_e'', ''$u_{e}/V$''),
      (''u_sup'', ''$u_{sup}/V$''),
      (''epsilon'', ''$'' @ [CHR 0x5C] @ ''epsilon/rad$'')]"

text \<open>\<^verbatim>\<open>state_labels.get(name, name)\<close>\<close>

definition label_of :: "string \<Rightarrow> string" where
  "label_of name = (case map_of state_labels name of None \<Rightarrow> name | Some l \<Rightarrow> l)"

text \<open>
  \<^verbatim>\<open>__init__(self, state, limit_line_cfg=None, **kwargs)\<close>, the keyword arguments being those
  of \<^verbatim>\<open>StepPlot.__init__\<close>. The argument \<^verbatim>\<open>limit_line_cfg\<close> is checked and not stored.
\<close>

definition StatePlot_init ::
  "(string \<times> pyval) list \<Rightarrow> string \<Rightarrow> pyval \<Rightarrow> rat \<Rightarrow> int \<Rightarrow> pyval
     \<Rightarrow> error + ((string \<times> pyval) list \<times> state_plot)" where
  "StatePlot_init cls state limit_line_cfg xw uc line_config =
     (let limit_line_cfg = or_empty_dict limit_line_cfg in
      if \<not> type_is_dict limit_line_cfg then Inl AssertionError
      else
        (case StepPlot_init cls xw uc line_config of
           Inl e \<Rightarrow> Inl e
         | Inr (cls', b) \<Rightarrow>
             Inr (cls', step_plot.extend b
                    (state_plot.fields None state None None None None None [] [] True))))"

text \<open>
  \<^verbatim>\<open>set_modules\<close> starts with \<^verbatim>\<open>super().set_modules(ps, rg, rf)\<close>; no base class of this
  module defines that method, so the lookup raises AttributeError before any assignment.
\<close>

definition StatePlot_set_modules :: "state_plot \<Rightarrow> 'ps \<Rightarrow> 'rg \<Rightarrow> 'rf \<Rightarrow> state_plot result" where
  "StatePlot_set_modules p ps rg rf = Raise AttributeError p"

text \<open>\<^verbatim>\<open>if self._referenced:\<close>\<close>

definition is_referenced :: "state_plot \<Rightarrow> bool" where
  "is_referenced p = (u_referenced p = Some True)"

text \<open>Lines 196 to 198 of \<^verbatim>\<open>initialize\<close>: the reference line and the state line.\<close>

definition StatePlot_initialize_lines :: "state_plot \<Rightarrow> state_plot result" where
  "StatePlot_initialize_lines p =
     (case u_axis p of
        None \<Rightarrow> Raise AttributeError p
      | Some ax \<Rightarrow>
          (case (if is_referenced p
                 then (case plot ax (u_t_data p) (u_ref_data p) (u_line_cfg p) of
                         Inl e \<Rightarrow> Inl e
                       | Inr (ax', l) \<Rightarrow> Inr (p\<lparr>u_axis := Some ax', u_reference_line := Some l\<rparr>, ax'))
                 else Inr (p, ax)) of
             Inl e \<Rightarrow> Raise e p
           | Inr (p, ax) \<Rightarrow>
               (case plot ax (u_t_data p) (u_state_data p) (u_line_cfg p) of
                  Inl e \<Rightarrow> Raise e p
                | Inr (ax', l) \<Rightarrow> Ok (p\<lparr>u_axis := Some ax', u_state_line := Some l\<rparr>))))"

text \<open>
  Lines 200 to 207: the limit lines and the label. Multiplying by a \<^verbatim>\<open>_limits\<close> that is
  None, or subscripting a \<^verbatim>\<open>_state_space\<close> that is None, raises TypeError.
\<close>

definition StatePlot_initialize_limits :: "state_plot \<Rightarrow> state_plot result" where
  "StatePlot_initialize_limits p =
     (case u_state_space p of
        None \<Rightarrow> Raise TypeError p
      | Some (lo, hi) \<Rightarrow>
          (case (if u_normalized p
                 then (case u_limits p of None \<Rightarrow> None | Some l \<Rightarrow> Some (fl (l * lo), fl (l * hi)))
                 else Some (lo, hi)) of
             None \<Rightarrow> Raise TypeError p
           | Some (min_limit, max_limit) \<Rightarrow>
               (case u_axis p of
                  None \<Rightarrow> Raise AttributeError p
                | Some ax \<Rightarrow>
                    (let ax = (if lo < 0 then axhline min_limit ax else ax);
                         ax = axhline max_limit ax;
                         ax = set_ylabel (label_of (u_state p)) ax
                     in Ok (p\<lparr>u_axis := Some ax\<rparr>)))))"

text \<open>
  Lines 209 to 219: the three buffers are allocated with \<^verbatim>\<open>_no_x_points\<close> entries each,
  then the legend is set.
\<close>

definition StatePlot_initialize_buffers :: "state_plot \<Rightarrow> state_plot result" where
  "StatePlot_initialize_buffers p =
     (case u_no_x_points p of
        None \<Rightarrow> Raise TypeError p
      | Some n \<Rightarrow>
          (case linspace0 (x_width p) n of
             None \<Rightarrow> Raise ValueError p
           | Some ts \<Rightarrow>
               (let p = p\<lparr>u_t_data := ts\<rparr>;
                    p = p\<lparr>u_state_data := zeros n\<rparr>;
                    p = p\<lparr>u_ref_data := zeros n\<rparr>;
                    y_label = label_of (u_state p)
                in case (u_state_line p, u_axis p) of
                     (Some sl, Some ax) \<Rightarrow>
                       if is_referenced p
                       then (case u_reference_line p of
                               None \<Rightarrow> Raise AttributeError p
                             | Some rl \<Rightarrow>
                                 Ok (p\<lparr>u_axis := Some (legend [y_label, y_label @ ''*'', ''limit''] ax)\<rparr>))
                       else Ok (p\<lparr>u_axis := Some (legend [y_label, ''limit''] ax)\<rparr>)
                   | (sl, ax) \<Rightarrow> Raise AttributeError p)))"

definition StatePlot_initialize :: "state_plot \<Rightarrow> axes \<Rightarrow> state_plot result" where
  "StatePlot_initialize p axis =
     and_then (and_then (and_then (StepPlot_initialize p axis)
       StatePlot_initialize_lines) StatePlot_initialize_limits) StatePlot_initialize_buffers"

text \<open>
  \<^verbatim>\<open>vec[self._state_idx]\<close> for a state or reference vector: an integer index reads one
  entry (\<open>Some\<close>) or raises IndexError; the index None gives a two-dimensional view of the
  vector (\<open>None\<close>), which cannot be stored in one entry of a buffer.
\<close>

definition pick :: "rat list \<Rightarrow> int option \<Rightarrow> error + rat option" where
  "pick vec i =
     (case i of
        None \<Rightarrow> Inr None
      | Some j \<Rightarrow> (case py_getitem vec j of None \<Rightarrow> Inl IndexError | Some v \<Rightarrow> Inr (Some v)))"

text \<open>\<^verbatim>\<open>buf[idx] = v\<close> on an array of numbers: the index is checked first, then the value.\<close>

definition store :: "rat list \<Rightarrow> int \<Rightarrow> rat option \<Rightarrow> error + rat list" where
  "store buf idx v =
     (case py_pos buf idx of
        None \<Rightarrow> Inl IndexError
      | Some j \<Rightarrow> (case v of None \<Rightarrow> Inl ValueError | Some r \<Rightarrow> Inr (buf[j := r])))"

text \<open>\<^verbatim>\<open>if done: self._axis.axvline(self._t, color='red', linewidth=1)\<close>\<close>

definition mark_done :: "'a step_plot_scheme \<Rightarrow> bool \<Rightarrow> 'a step_plot_scheme result" where
  "mark_done p done =
     (if done
      then (case u_axis p of
              None \<Rightarrow> Raise AttributeError p
            | Some ax \<Rightarrow> Ok (p\<lparr>u_axis := Some (axvline (u_t p) ax)\<rparr>))
      else Ok p)"

text \<open>
  \<^verbatim>\<open>step(self, k, state, reference, action, reward, done)\<close>. The first statement
  \<^verbatim>\<open>self._t += self._tau\<close> raises TypeError while \<^verbatim>\<open>_tau\<close> is None.
\<close>

definition StatePlot_step ::
  "state_plot \<Rightarrow> int \<Rightarrow> rat list \<Rightarrow> rat list \<Rightarrow> 'act \<Rightarrow> rat \<Rightarrow> bool \<Rightarrow> state_plot result" where
  "StatePlot_step p k state reference action reward done =
     (case u_tau p of
        None \<Rightarrow> Raise TypeError p
      | Some tau \<Rightarrow>
          (let p = p\<lparr>u_t := fl (u_t p + tau)\<rparr> in
           case pick state (u_state_idx p) of
             Inl e \<Rightarrow> Raise e p
           | Inr state' \<Rightarrow>
               (case pick reference (u_state_idx p) of
                  Inl e \<Rightarrow> Raise e p
                | Inr ref \<Rightarrow>
                    (case step_idx (u_t p) (x_width p) tau of
                       None \<Rightarrow> Raise ZeroDivisionError p
                     | Some idx \<Rightarrow>
                         (case py_setitem (u_t_data p) idx (u_t p) of
                            None \<Rightarrow> Raise IndexError p
                          | Some td \<Rightarrow>
                              (let p = p\<lparr>u_t_data := td\<rparr> in
                               case store (u_state_data p) idx state' of
                                 Inl e \<Rightarrow> Raise e p
                               | Inr sd \<Rightarrow>
                                   (let p = p\<lparr>u_state_data := sd\<rparr> in
                                    if is_referenced p
                                    then (case store (u_ref_data p) idx ref of
                                            Inl e \<Rightarrow> Raise e p
                                          | Inr rd \<Rightarrow> mark_done (p\<lparr>u_ref_data := rd\<rparr>) done)
                                    else mark_done p done)))))))"

text \<open>\<^verbatim>\<open>update\<close>: the lines receive the (scaled) buffers, then the x-axis is moved.\<close>

definition StatePlot_update :: "state_plot \<Rightarrow> state_plot result" where
  "StatePlot_update p =
     (case (if u_normalized p
            then (case u_limits p of
                    None \<Rightarrow> None
                  | Some l \<Rightarrow>
                      Some (map (\<lambda>v. fl (v * l)) (u_state_data p),
                            if is_referenced p then map (\<lambda>v. fl (v * l)) (u_ref_data p) else u_ref_data p))
            else Some (u_state_data p, u_ref_data p)) of
        None \<Rightarrow> Raise TypeError p
      | Some (state_data, ref_data) \<Rightarrow>
          (case (if is_referenced p
                 then (case u_reference_line p of
                         None \<Rightarrow> None
                       | Some rl \<Rightarrow> Some (p\<lparr>u_reference_line := Some (set_data (u_t_data p) ref_data rl)\<rparr>))
                 else Some p) of
             None \<Rightarrow> Raise AttributeError p
           | Some p \<Rightarrow>
               (case u_state_line p of
                  None \<Rightarrow> Raise AttributeError p
                | Some sl \<Rightarrow>
                    StepPlot_update (p\<lparr>u_state_line := Some (set_data (u_t_data p) state_data sl)\<rparr>))))"

text \<open>
  A sequence of \<^verbatim>\<open>step\<close> calls, each given by its arguments \<open>(k, state, reference, done)\<close>
  (the method reads neither \<^verbatim>\<open>action\<close> nor \<^verbatim>\<open>reward\<close>); an exception ends the sequence.
\<close>

fun StatePlot_steps ::
  "(int \<times> rat list \<times> rat list \<times> bool) list \<Rightarrow> state_plot \<Rightarrow> state_plot result" where
  "StatePlot_steps [] p = Ok p"
| "StatePlot_steps ((k, s, r, d) # cs) p =
     and_then (StatePlot_step p k s r () 0 d) (StatePlot_steps cs)"

section \<open>RewardPlot\<close>

record reward_plot = step_plot +
  u_reward_range :: "(pyfloat \<times> pyfloat) option"
  u_reward_line :: "line2d option"
  u_reward_data :: "rat list option"

text \<open>\<^verbatim>\<open>__init__(self)\<close> calls \<^verbatim>\<open>super().__init__()\<close> with the defaults.\<close>

definition RewardPlot_init ::
  "(string \<times> pyval) list \<Rightarrow> error + ((string \<times> pyval) list \<times> reward_plot)" where
  "RewardPlot_init cls =
     (case StepPlot_init cls 1 1000 PyNone of
        Inl e \<Rightarrow> Inl e
      | Inr (cls', b) \<Rightarrow> Inr (cls', step_plot.extend b (reward_plot.fields None None None)))"

definition RewardPlot_set_modules :: "reward_plot \<Rightarrow> 'ps \<Rightarrow> 'rg \<Rightarrow> 'rf \<Rightarrow> reward_plot result" where
  "RewardPlot_set_modules p ps rg rf = Raise AttributeError p"

text \<open>\<^verbatim>\<open>initialize\<close>; the line is plotted without keyword arguments.\<close>

definition RewardPlot_initialize :: "reward_plot \<Rightarrow> axes \<Rightarrow> reward_plot result" where
  "RewardPlot_initialize p axis =
     and_then (StepPlot_initialize p axis) (\<lambda>p.
       case u_no_x_points p of
         None \<Rightarrow> Raise TypeError p
       | Some n \<Rightarrow>
           (case linspace0 (x_width p) n of
              None \<Rightarrow> Raise ValueError p
            | Some ts \<Rightarrow>
                (let p = p\<lparr>u_t_data := ts\<rparr>;
                     p = p\<lparr>u_reward_data := Some (zeros n)\<rparr>
                 in case u_axis p of
                      None \<Rightarrow> Raise AttributeError p
                    | Some ax \<Rightarrow>
                        (case plot ax ts (zeros n) (PyDict []) of
                           Inl e \<Rightarrow> Raise e p
                         | Inr (ax, l) \<Rightarrow>
                             (let p = p\<lparr>u_axis := Some ax, u_reward_line := Some l\<rparr> in
                              case u_reward_range p of
                                None \<Rightarrow> Raise TypeError p
                              | Some (min_limit, max_limit) \<Rightarrow>
                                  (let spacing = tenth (f_sub max_limit min_limit) in
                                   case set_ylim (f_sub min_limit spacing) (f_add max_limit spacing) ax of
                                     None \<Rightarrow> Raise ValueError p
                                   | Some ax \<Rightarrow> Ok (p\<lparr>u_axis := Some (set_ylabel ''reward'' ax)\<rparr>)))))))"

text \<open>\<^verbatim>\<open>step\<close>; assigning into a \<^verbatim>\<open>_reward_data\<close> that is None raises TypeError.\<close>

definition RewardPlot_step ::
  "reward_plot \<Rightarrow> int \<Rightarrow> 'st \<Rightarrow> 'st \<Rightarrow> 'act \<Rightarrow> rat \<Rightarrow> bool \<Rightarrow> reward_plot result" where
  "RewardPlot_step p k state reference action reward done =
     (case u_tau p of
        None \<Rightarrow> Raise TypeError p
      | Some tau \<Rightarrow>
          (let p = p\<lparr>u_t := fl (u_t p + tau)\<rparr> in
           case step_idx (u_t p) (x_width p) tau of
             None \<Rightarrow> Raise ZeroDivisionError p
           | Some idx \<Rightarrow>
               (case py_setitem (u_t_data p) idx (u_t p) of
                  None \<Rightarrow> Raise IndexError p
                | Some td \<Rightarrow>
                    (let p = p\<lparr>u_t_data := td\<rparr> in
                     case u_reward_data p of
                       None \<Rightarrow> Raise TypeError p
                     | Some rd \<Rightarrow>
                         (case py_setitem rd idx reward of
                            None \<Rightarrow> Raise IndexError p
                          | Some rd \<Rightarrow> mark_done (p\<lparr>u_reward_data := Some rd\<rparr>) done)))))"

definition RewardPlot_update :: "reward_plot \<Rightarrow> reward_plot result" where
  "RewardPlot_update p =
     (case u_reward_line p of
        None \<Rightarrow> Raise AttributeError p
      | Some l \<Rightarrow>
          (case u_reward_data p of
             None \<Rightarrow> StepPlot_update (p\<lparr>u_reward_line := Some (set_data (u_t_data p) [] l)\<rparr>)
           | Some rd \<Rightarrow> StepPlot_update (p\<lparr>u_reward_line := Some (set_data (u_t_data p) rd l)\<rparr>)))"

section \<open>ActionPlot\<close>

text \<open>The action space: \<^verbatim>\<open>Box(low, high)\<close> or \<^verbatim>\<open>Discrete(n)\<close>. An action is a number or a vector.\<close>

datatype space = Box "rat list" "rat list" | Discrete int

datatype action = Scalar rat | Vector "rat list"

record action_plot = step_plot +
  u_action_space :: "space option"
  u_action :: string
  u_action_idx :: "int option"
  u_action_line :: "line2d option"
  u_action_data :: "rat list option"
  u_action_range_min :: "rat option"
  u_action_range_max :: "rat option"
  u_action_type :: "string option"

definition ActionPlot_init ::
  "(string \<times> pyval) list \<Rightarrow> string \<Rightarrow> error + ((string \<times> pyval) list \<times> action_plot)" where
  "ActionPlot_init cls action =
     (case StepPlot_init cls 1 1000 PyNone of
        Inl e \<Rightarrow> Inl e
      | Inr (cls', b) \<Rightarrow>
          Inr (cls', step_plot.extend b
                 (action_plot.fields None action None None None None None None)))"

definition ActionPlot_set_modules :: "action_plot \<Rightarrow> 'ps \<Rightarrow> 'rg \<Rightarrow> 'rf \<Rightarrow> action_plot result" where
  "ActionPlot_set_modules p ps rg rf = Raise AttributeError p"

definition ActionPlot_initialize :: "action_plot \<Rightarrow> axes \<Rightarrow> action_plot result" where
  "ActionPlot_initialize p axis =
     and_then (StepPlot_initialize p axis) (\<lambda>p.
       case u_no_x_points p of
         None \<Rightarrow> Raise TypeError p
       | Some n \<Rightarrow>
           (case linspace0 (x_width p) n of
              None \<Rightarrow> Raise ValueError p
            | Some ts \<Rightarrow>
                (let p = p\<lparr>u_t_data := ts\<rparr>;
                     p = p\<lparr>u_action_data := Some (zeros n)\<rparr>
                 in case u_axis p of
                      None \<Rightarrow> Raise AttributeError p
                    | Some ax \<Rightarrow>
                        (case plot ax ts (zeros n) (u_line_cfg p) of
                           Inl e \<Rightarrow> Raise e p
                         | Inr (ax, l) \<Rightarrow>
                             (let p = p\<lparr>u_axis := Some ax, u_action_line := Some l\<rparr> in
                              case (u_action_range_min p, u_action_range_max p) of
                                (Some act_min, Some act_max) \<Rightarrow>
                                  (let spacing = fl (fl (act_max - act_min) * fl (1 / 10)) in
                                   case set_ylim (Fin (fl (act_min - spacing))) (Fin (fl (act_max + spacing))) ax of
                                     None \<Rightarrow> Raise ValueError p
                                   | Some ax \<Rightarrow>
                                       Ok (p\<lparr>u_axis :=
                                              Some (legend [u_action p] (set_ylabel (u_action p) ax))\<rparr>))
                              | (a, b) \<Rightarrow> Raise TypeError p)))))"

text \<open>
  The value \<^verbatim>\<open>step\<close> stores for an action that is not None: the action itself when
  \<^verbatim>\<open>_action_type\<close> is \<^verbatim>\<open>'Discrete'\<close>, else \<^verbatim>\<open>action[self._action_idx]\<close> (subscripting a
  number raises TypeError). A vector cannot be stored in one entry.
\<close>

definition action_value :: "action_plot \<Rightarrow> action \<Rightarrow> error + rat option" where
  "action_value p a =
     (if u_action_type p = Some ''Discrete''
      then (case a of Scalar v \<Rightarrow> Inr (Some v) | Vector vs \<Rightarrow> Inr None)
      else (case a of Scalar v \<Rightarrow> Inl TypeError | Vector vs \<Rightarrow> pick vs (u_action_idx p)))"

definition ActionPlot_step ::
  "action_plot \<Rightarrow> int \<Rightarrow> 'st \<Rightarrow> 'st \<Rightarrow> action option \<Rightarrow> rat \<Rightarrow> bool \<Rightarrow> action_plot result" where
  "ActionPlot_step p k state reference action reward done =
     (case u_tau p of
        None \<Rightarrow> Raise TypeError p
      | Some tau \<Rightarrow>
          (let p = p\<lparr>u_t := fl (u_t p + tau)\<rparr> in
           case step_idx (u_t p) (x_width p) tau of
             None \<Rightarrow> Raise ZeroDivisionError p
           | Some idx \<Rightarrow>
               (case py_setitem (u_t_data p) idx (u_t p) of
                  None \<Rightarrow> Raise IndexError p
                | Some td \<Rightarrow>
                    (let p = p\<lparr>u_t_data := td\<rparr> in
                     case action of
                       None \<Rightarrow> mark_done p done
                     | Some a \<Rightarrow>
                         (case action_value p a of
                            Inl e \<Rightarrow> Raise e p
                          | Inr v \<Rightarrow>
                              (case u_action_data p of
                                 None \<Rightarrow> Raise TypeError p
                               | Some ad \<Rightarrow>
                                   (case store ad idx v of
                                      Inl e \<Rightarrow> Raise e p
                                    | Inr ad \<Rightarrow> mark_done (p\<lparr>u_action_data := Some ad\<rparr>) done)))))))"

section \<open>EpisodeBasedPlot and MeanEpisodeRewardPlot\<close>

definition EpisodeBasedPlot_initialize ::
  "'a motor_dashboard_plot_scheme \<Rightarrow> axes \<Rightarrow> 'a motor_dashboard_plot_scheme result" where
  "EpisodeBasedPlot_initialize p axis =
     and_then (MotorDashboardPlot_initialize p axis) (\<lambda>p.
       case u_axis p of
         None \<Rightarrow> Raise AttributeError p
       | Some ax \<Rightarrow> Ok (p\<lparr>u_axis := Some (autoscale ax)\<rparr>))"

text \<open>
  The fields \<open>m_reward_line\<close>, \<open>m_reward_data\<close> and \<open>m_reward_range\<close> are the attributes
  \<^verbatim>\<open>_reward_line\<close>, \<^verbatim>\<open>_reward_data\<close> and \<^verbatim>\<open>_reward_range\<close> of this class, \<open>x_deque\<close> is
  \<^verbatim>\<open>x\<close> and \<open>x_width_attr\<close> is \<^verbatim>\<open>x_width\<close>. The methods read \<^verbatim>\<open>x_width\<close>,
  \<^verbatim>\<open>reward_line_cfg\<close>, \<^verbatim>\<open>mode\<close> and \<^verbatim>\<open>_reward_range\<close>, which the constructor does not
  assign: these fields are \<open>Absent\<close> until some statement assigns them.
\<close>

record mean_episode_reward_plot = motor_dashboard_plot +
  m_reward_line :: "line2d option"
  m_reward_data :: "rat deque option"
  u_reward_sum :: rat
  u_episode_length :: int
  episode_count :: int
  x_deque :: "rat deque option"
  x_width_attr :: "int attr"
  reward_line_cfg :: "pyval attr"
  mode :: "string attr"
  m_reward_range :: "(pyfloat \<times> pyfloat) attr"

definition MeanEpisodeRewardPlot_init ::
  "(string \<times> pyval) list \<Rightarrow> error + ((string \<times> pyval) list \<times> mean_episode_reward_plot)" where
  "MeanEpisodeRewardPlot_init cls =
     (case MotorDashboardPlot_init cls PyNone of
        Inl e \<Rightarrow> Inl e
      | Inr (cls', b) \<Rightarrow>
          Inr (cls', (motor_dashboard_plot.extend b
                 (mean_episode_reward_plot.fields None None 0 0 0 None Absent Absent Absent Absent))
                 \<lparr>u_axis := None\<rparr>))"

text \<open>\<^verbatim>\<open>deque(np.zeros(w), w)\<close>; a negative \<open>w\<close> raises ValueError.\<close>

definition zero_deque :: "int \<Rightarrow> rat deque option" where
  "zero_deque w = (if w < 0 then None else Some \<lparr>items = zeros w, maxlen = nat w\<rparr>)"

definition MeanEpisodeRewardPlot_initialize ::
  "mean_episode_reward_plot \<Rightarrow> axes \<Rightarrow> mean_episode_reward_plot result" where
  "MeanEpisodeRewardPlot_initialize p axis =
     (let p = p\<lparr>u_axis := Some (grid axis)\<rparr>; ax = grid axis in
      case x_width_attr p of
        Absent \<Rightarrow> Raise AttributeError p
      | Present w \<Rightarrow>
          (case zero_deque w of
             None \<Rightarrow> Raise ValueError p
           | Some d \<Rightarrow>
               (let p = p\<lparr>x_deque := Some d\<rparr>;
                    p = p\<lparr>m_reward_data := Some d\<rparr>
                in case reward_line_cfg p of
                     Absent \<Rightarrow> Raise AttributeError p
                   | Present cfg \<Rightarrow>
                       (case plot ax (items d) (items d) cfg of
                          Inl e \<Rightarrow> Raise e p
                        | Inr (ax, l) \<Rightarrow>
                            (let p = p\<lparr>u_axis := Some ax, m_reward_line := Some l\<rparr> in
                             case m_reward_range p of
                               Absent \<Rightarrow> Raise AttributeError p
                             | Present (min_limit, max_limit) \<Rightarrow>
                                 (let spacing = tenth (f_sub max_limit min_limit);
                                      ax = set_xlim 0 (of_int w) ax;
                                      p = p\<lparr>u_axis := Some ax\<rparr>
                                  in case set_ylim (f_sub min_limit spacing) (f_add max_limit spacing) ax of
                                       None \<Rightarrow> Raise ValueError p
                                     | Some ax \<Rightarrow>
                                         Ok (p\<lparr>u_axis :=
                                                Some (set_ylabel ''mean reward per episode'' ax)\<rparr>)))))))"

definition MeanEpisodeRewardPlot_set_modules ::
  "mean_episode_reward_plot \<Rightarrow> 'ps \<Rightarrow> 'rg \<Rightarrow> pyfloat \<times> pyfloat \<Rightarrow> mean_episode_reward_plot result" where
  "MeanEpisodeRewardPlot_set_modules p ps rg reward_range = Ok (p\<lparr>m_reward_range := Present reward_range\<rparr>)"

definition MeanEpisodeRewardPlot_step ::
  "mean_episode_reward_plot \<Rightarrow> int \<Rightarrow> 'st \<Rightarrow> 'st \<Rightarrow> 'act \<Rightarrow> rat \<Rightarrow> bool \<Rightarrow> mean_episode_reward_plot result" where
  "MeanEpisodeRewardPlot_step p k state reference action reward done =
     (let p = p\<lparr>u_reward_sum := fl (u_reward_sum p + reward)\<rparr>;
          p = p\<lparr>u_episode_length := k\<rparr>
      in Ok p)"

definition MeanEpisodeRewardPlot_update :: "mean_episode_reward_plot \<Rightarrow> mean_episode_reward_plot result" where
  "MeanEpisodeRewardPlot_update p =
     (case x_deque p of
        None \<Rightarrow> Raise AttributeError p
      | Some xd \<Rightarrow>
          (let xd = deque_append xd (of_int (episode_count p));
               p = p\<lparr>x_deque := Some xd\<rparr>
           in case m_reward_data p of
                None \<Rightarrow> Raise AttributeError p
              | Some rd \<Rightarrow>
                  (case py_truediv (u_reward_sum p) (of_int (u_episode_length p)) of
                     None \<Rightarrow> Raise ZeroDivisionError p
                   | Some mean \<Rightarrow>
                       (let rd = deque_append rd mean;
                            p = p\<lparr>m_reward_data := Some rd\<rparr>
                        in case m_reward_line p of
                             None \<Rightarrow> Raise AttributeError p
                           | Some l \<Rightarrow>
                               (let p = p\<lparr>m_reward_line := Some (set_data (items xd) (items rd) l)\<rparr> in
                                case mode p of
                                  Absent \<Rightarrow> Raise AttributeError p
                                | Present m \<Rightarrow>
                                    if m = ''continuous''
                                    then (case (u_axis p, x_width_attr p) of
                                            (Some ax, Present w) \<Rightarrow>
                                              Ok (p\<lparr>u_axis := Some
                                                    (set_xlim (max 0 (of_int (episode_count p - w)))
                                                       (fl (of_int (episode_count p) + fl (fl (1 / 5) * of_int w))) ax)\<rparr>)
                                          | (a, b) \<Rightarrow> Raise AttributeError p)
                                    else Ok p)))))"

definition MeanEpisodeRewardPlot_reset :: "mean_episode_reward_plot \<Rightarrow> mean_episode_reward_plot result" where
  "MeanEpisodeRewardPlot_reset p =
     and_then (if u_episode_length p > 0 then MeanEpisodeRewardPlot_update p else Ok p) (\<lambda>p.
       (let p = p\<lparr>episode_count := episode_count p + 1\<rparr>;
            p = p\<lparr>u_reward_sum := 0\<rparr>
        in Ok p))"

text \<open>
  An episode: the \<^verbatim>\<open>step\<close> calls of the host, each given by its step number \<open>k\<close> and its
  reward (the method reads no other argument and never raises).
\<close>

fun episode :: "(int \<times> rat) list \<Rightarrow> mean_episode_reward_plot \<Rightarrow> mean_episode_reward_plot" where
  "episode [] p = p"
| "episode ((k, r) # steps) p = episode steps (after (MeanEpisodeRewardPlot_step p k () () () r False))"

text \<open>
  The calls a host can make on a \<^verbatim>\<open>MeanEpisodeRewardPlot\<close>, and a run of such calls; a call
  that raises leaves the object as it was at the raise, and the run goes on from there.
\<close>

datatype mean_call =
    Initialize axes
  | SetModules "pyfloat \<times> pyfloat"
  | Step int rat
  | Update
  | Reset

fun mean_do :: "mean_call \<Rightarrow> mean_episode_reward_plot \<Rightarrow> mean_episode_reward_plot result" where
  "mean_do (Initialize axis) p = MeanEpisodeRewardPlot_initialize p axis"
| "mean_do (SetModules rr) p = MeanEpisodeRewardPlot_set_modules p () () rr"
| "mean_do (Step k r) p = MeanEpisodeRewardPlot_step p k () () () r False"
| "mean_do Update p = MeanEpisodeRewardPlot_update p"
| "mean_do Reset p = MeanEpisodeRewardPlot_reset p"

fun mean_run :: "mean_call list \<Rightarrow> mean_episode_reward_plot \<Rightarrow> mean_episode_reward_plot" where
  "mean_run [] p = p"
| "mean_run (c # cs) p = mean_run cs (after (mean_do c p))"

section \<open>Example objects\<close>

text \<open>A fresh axis as the library creates it, a plot that has been given this axis, and an environment.\<close>

definition fresh_axes :: axes where
  "fresh_axes = \<lparr>ax_grid = False, ax_autoscale = False, ax_xlim = (0, 1), ax_ylim = (0, 1),
     ax_ylabel = [], ax_hlines = [], ax_vlines = [], ax_nlines = 0, ax_legend = []\<rparr>"


definition example_env :: "rat \<Rightarrow> env" where
  "example_env t = \<lparr>physical_system = \<lparr>ps_tau = t\<rparr>\<rparr>"

section \<open>Properties\<close>

subsection \<open>Auxiliary facts\<close>

lemma and_then_Ok: "and_then r f = Ok y \<longleftrightarrow> (\<exists>x. r = Ok x \<and> f x = Ok y)"
  by (cases r) (simp_all add: and_then_def)

lemma MotorDashboardPlot_init_eq:
  "MotorDashboardPlot_init cls line_config =
     (if truthy line_config \<and> \<not> type_is_dict line_config then Inl AssertionError
      else Inr (fst (dict_update cls (dict_items (or_empty_dict line_config))),
                \<lparr>u_axis = None, u_line_cfg = PyNone\<rparr>))"
  by (cases line_config)
     (simp_all add: MotorDashboardPlot_init_def or_empty_dict_def dict_update_def)

lemma StepPlot_init_eq:
  "StepPlot_init cls xw uc line_config =
     (if truthy line_config \<and> \<not> type_is_dict line_config then Inl AssertionError
      else Inr (fst (dict_update cls (dict_items (or_empty_dict line_config))),
                \<lparr>u_axis = None, u_line_cfg = PyNone, u_no_x_points = None, u_t = 0, u_t_data = [],
                 u_tau = None, x_width = xw, update_cycle = uc, y_lim = Some (NInf, PInf)\<rparr>))"
  by (simp add: StepPlot_init_def MotorDashboardPlot_init_eq motor_dashboard_plot.defs step_plot.defs)

lemma or_empty_dict_check:
  "type_is_dict (or_empty_dict v) \<longleftrightarrow> \<not> (truthy v \<and> \<not> type_is_dict v)"
  by (cases v) (simp_all add: or_empty_dict_def)

lemma plot_PyNone: "plot ax xs ys PyNone = Inl TypeError"
  by (simp add: plot_def)

lemma StatePlot_initialize_lines_PyNone:
  "u_line_cfg p = PyNone \<Longrightarrow> \<exists>e s. StatePlot_initialize_lines p = Raise e s"
  by (auto simp: StatePlot_initialize_lines_def plot_PyNone split: option.splits)

lemma StepPlot_initialize_line_cfg:
  "StepPlot_initialize p axis = Ok q \<Longrightarrow> u_line_cfg q = u_line_cfg p"
  by (auto simp: StepPlot_initialize_def MotorDashboardPlot_initialize_def and_then_def Let_def
      split: option.splits prod.splits)

lemma StatePlot_initialize_PyNone:
  assumes "u_line_cfg p = PyNone"
  shows "\<exists>e s. StatePlot_initialize p axis = Raise e s"
proof (cases "StepPlot_initialize p axis")
  case (Ok q)
  then have "u_line_cfg q = PyNone" using assms StepPlot_initialize_line_cfg by metis
  then obtain e s where "StatePlot_initialize_lines q = Raise e s"
    using StatePlot_initialize_lines_PyNone by blast
  then show ?thesis using Ok by (simp add: StatePlot_initialize_def and_then_def)
next
  case (Raise e s)
  then show ?thesis by (simp add: StatePlot_initialize_def and_then_def)
qed

subsection \<open>Callbacks without effect\<close>

text \<open>
  Claim C7. \<^verbatim>\<open>MotorDashboardPlot.set_env\<close>, \<^verbatim>\<open>MotorDashboardPlot.on_reset_begin\<close> and
  \<^verbatim>\<open>StepPlot.on_reset_end\<close> return and leave the object, whatever its class and its
  fields, as it was, for every argument.
\<close>

theorem base_callbacks_noop:
  fixes p :: "'a motor_dashboard_plot_scheme" and q :: "'b step_plot_scheme"
  shows "MotorDashboardPlot_set_env p e = Ok p
       \<and> MotorDashboardPlot_on_reset_begin p = Ok p
       \<and> StepPlot_on_reset_end q k state reference = Ok q"
  by (simp add: MotorDashboardPlot_set_env_def MotorDashboardPlot_on_reset_begin_def
      StepPlot_on_reset_end_def)

subsection \<open>The assertions of the constructors\<close>

text \<open>
  Claim C5, amended. \<^verbatim>\<open>MotorDashboardPlot.__init__\<close> raises AssertionError if and only if
  \<^verbatim>\<open>line_config\<close> is truthy and not a dict: None and every other falsy value are
  replaced by \<^verbatim>\<open>{}\<close> and accepted, and the constructor then completes.
  \<^verbatim>\<open>StatePlot.__init__\<close> raises AssertionError if and only if \<^verbatim>\<open>limit_line_cfg\<close> is truthy
  and not a dict, or the \<^verbatim>\<open>line_config\<close> it passes on is truthy and not a dict, and
  otherwise completes.
\<close>

theorem init_assertions:
  "MotorDashboardPlot_init cls line_config =
     (if truthy line_config \<and> \<not> type_is_dict line_config then Inl AssertionError
      else Inr (fst (dict_update cls (dict_items (or_empty_dict line_config))),
                \<lparr>u_axis = None, u_line_cfg = PyNone\<rparr>))
   \<and> (MotorDashboardPlot_init cls line_config = Inl AssertionError
        \<longleftrightarrow> truthy line_config \<and> \<not> type_is_dict line_config)
   \<and> (StatePlot_init cls state limit_line_cfg xw uc line_config = Inl AssertionError
        \<longleftrightarrow> (truthy limit_line_cfg \<and> \<not> type_is_dict limit_line_cfg)
            \<or> (truthy line_config \<and> \<not> type_is_dict line_config))
   \<and> (\<exists>r. StatePlot_init cls state limit_line_cfg xw uc line_config =
          (if (truthy limit_line_cfg \<and> \<not> type_is_dict limit_line_cfg)
              \<or> (truthy line_config \<and> \<not> type_is_dict line_config)
           then Inl AssertionError else Inr r))"
proof -
  have a: "MotorDashboardPlot_init cls line_config = Inl AssertionError
        \<longleftrightarrow> truthy line_config \<and> \<not> type_is_dict line_config"
    by (simp add: MotorDashboardPlot_init_eq)
  have b: "\<exists>r. StatePlot_init cls state limit_line_cfg xw uc line_config =
          (if (truthy limit_line_cfg \<and> \<not> type_is_dict limit_line_cfg)
              \<or> (truthy line_config \<and> \<not> type_is_dict line_config)
           then Inl AssertionError else Inr r)"
    by (simp add: StatePlot_init_def StepPlot_init_eq or_empty_dict_check Let_def)
  then have c: "StatePlot_init cls state limit_line_cfg xw uc line_config = Inl AssertionError
        \<longleftrightarrow> (truthy limit_line_cfg \<and> \<not> type_is_dict limit_line_cfg)
            \<or> (truthy line_config \<and> \<not> type_is_dict line_config)"
    by (auto split: if_splits)
  show ?thesis using a b c MotorDashboardPlot_init_eq [of cls line_config] by blast
qed

theorem init_assertions_witness:
  "MotorDashboardPlot_init default_line_cfg (PyInt 5) = Inl AssertionError
   \<and> StatePlot_init default_line_cfg ''omega'' PyNone 1 1000 (PyStr ''red'') = Inl AssertionError"
proof -
  have t: "truthy (PyInt 5) \<and> \<not> type_is_dict (PyInt 5)" by simp
  have u: "truthy (PyStr ''red'') \<and> \<not> type_is_dict (PyStr ''red'')" by simp
  from init_assertions [of default_line_cfg "PyInt 5" "''omega''" PyNone 1 1000] t
  have 1: "MotorDashboardPlot_init default_line_cfg (PyInt 5) = Inl AssertionError" by blast
  from init_assertions [of default_line_cfg "PyStr ''red''" "''omega''" PyNone 1 1000] u
  have 2: "StatePlot_init default_line_cfg ''omega'' PyNone 1 1000 (PyStr ''red'') = Inl AssertionError"
    by blast
  show ?thesis using 1 2 by simp
qed

text \<open>
  The claim as stated fails for a falsy value that is neither None nor a dict: the empty
  list is accepted as \<^verbatim>\<open>line_config\<close> and 0 as \<^verbatim>\<open>limit_line_cfg\<close>; and
  \<^verbatim>\<open>StatePlot.__init__\<close> raises AssertionError for a bad \<^verbatim>\<open>line_config\<close> although
  \<^verbatim>\<open>limit_line_cfg\<close> is None.
\<close>

theorem falsy_line_config_accepted:
  "PyList [] \<noteq> PyNone \<and> \<not> type_is_dict (PyList [])
   \<and> MotorDashboardPlot_init default_line_cfg (PyList []) =
       Inr (default_line_cfg, \<lparr>u_axis = None, u_line_cfg = PyNone\<rparr>)
   \<and> PyInt 0 \<noteq> PyNone \<and> \<not> type_is_dict (PyInt 0)
   \<and> StatePlot_init default_line_cfg ''omega'' (PyInt 0) 1 1000 PyNone \<noteq> Inl AssertionError
   \<and> StatePlot_init default_line_cfg ''omega'' PyNone 1 1000 (PyInt 5) = Inl AssertionError"
  by code_simp

subsection \<open>The line configuration is lost\<close>

text \<open>
  Claim C8. Whenever \<^verbatim>\<open>MotorDashboardPlot.__init__\<close> accepts its \<^verbatim>\<open>line_config\<close>, the
  attribute \<^verbatim>\<open>_line_cfg\<close> is None afterwards: the merged configuration stays in the class
  attribute only. Unpacking \<^verbatim>\<open>_line_cfg\<close> in a plotting call raises TypeError, so
  \<^verbatim>\<open>StatePlot.initialize\<close> never completes on an object with this \<^verbatim>\<open>_line_cfg\<close>.
\<close>

theorem line_cfg_is_none:
  assumes "MotorDashboardPlot_init cls line_config = Inr (cls', p)"
  shows "u_line_cfg p = PyNone
       \<and> cls' = fst (dict_update cls (dict_items (or_empty_dict line_config)))
       \<and> unpack_kwargs (u_line_cfg p) = None
       \<and> plot ax xs ys (u_line_cfg p) = Inl TypeError
       \<and> (\<forall>q axis. u_line_cfg q = u_line_cfg p \<longrightarrow> (\<exists>e s. StatePlot_initialize q axis = Raise e s))"
proof -
  have p: "u_line_cfg p = PyNone" and c: "cls' = fst (dict_update cls (dict_items (or_empty_dict line_config)))"
    using assms by (auto simp: MotorDashboardPlot_init_eq split: if_splits)
  show ?thesis using p c StatePlot_initialize_PyNone by (simp add: plot_PyNone)
qed

theorem line_cfg_is_none_witness:
  "MotorDashboardPlot_init default_line_cfg (PyDict [(''color'', PyStr ''red'')]) =
     Inr (default_line_cfg @ [(''color'', PyStr ''red'')], \<lparr>u_axis = None, u_line_cfg = PyNone\<rparr>)
   \<and> plot fresh_axes [] [] (u_line_cfg \<lparr>u_axis = None, u_line_cfg = PyNone\<rparr>) = Inl TypeError"
proof -
  have i: "MotorDashboardPlot_init default_line_cfg (PyDict [(''color'', PyStr ''red'')]) =
     Inr (default_line_cfg @ [(''color'', PyStr ''red'')], \<lparr>u_axis = None, u_line_cfg = PyNone\<rparr>)"
    by code_simp
  from line_cfg_is_none [OF i, of fresh_axes "[]" "[]"] i show ?thesis by blast
qed





subsection \<open>The x-axis window\<close>




end
